theory Spec2Isabelle
  imports Main
begin

section \<open>Python values and classes\<close>

text \<open>
  A class object is its qualified name together with its direct bases; \<open>issubclass\<close> is
  the nominal relation that Python computes from the method resolution order (the class
  itself, or a base, or a base of a base, ...). Classes with a subclass hook of their own
  are outside this universe.
\<close>

datatype pyclass = PyClass (cname: string) (bases: "pyclass list")

fun issubclass :: "pyclass \<Rightarrow> pyclass \<Rightarrow> bool" where
  "issubclass (PyClass n bs) d = (PyClass n bs = d \<or> list_ex (\<lambda>b. issubclass b d) bs)"

definition object_class :: pyclass where
  "object_class = PyClass ''object'' []"

definition class_type :: pyclass where
  "class_type = PyClass ''type'' [object_class]"

definition NoneType_class :: pyclass where
  "NoneType_class = PyClass ''NoneType'' [object_class]"

definition int_class :: pyclass where
  "int_class = PyClass ''int'' [object_class]"

definition bool_class :: pyclass where
  "bool_class = PyClass ''bool'' [int_class]"

definition str_class :: pyclass where
  "str_class = PyClass ''str'' [object_class]"

definition function_class :: pyclass where
  "function_class = PyClass ''function'' [object_class]"

definition coroutine_class :: pyclass where
  "coroutine_class = PyClass ''coroutine'' [object_class]"

text \<open>\<^verbatim>\<open>inspect.Parameter.empty\<close>, the default of a parameter that declares none, is a class.\<close>

definition Parameter_empty :: pyclass where
  "Parameter_empty = PyClass ''inspect._empty'' [object_class]"

text \<open>The two classes of the module: \<^verbatim>\<open>class Undefined\<close> and \<^verbatim>\<open>class Injected(typing.Generic[_T])\<close>.\<close>

definition Undefined_class :: pyclass where
  "Undefined_class = PyClass ''tanjun.injector.Undefined'' [object_class]"

definition Injected_class :: pyclass where
  "Injected_class =
     PyClass ''tanjun.injector.Injected'' [PyClass ''typing.Generic'' [object_class]]"

text \<open>
  The values the resolver meets. \<open>PUndefined\<close> is the singleton \<^verbatim>\<open>UNDEFINED\<close>;
  \<open>PInjected cb ty\<close> is an instance of \<^verbatim>\<open>Injected\<close> with its two slots; \<open>PInstance i c b\<close>
  is an instance of a user class \<open>c\<close> (a client, a component, a configuration object, ...)
  with identity \<open>i\<close> and truth value \<open>b\<close>; \<open>PFunction f\<close> is a function object;
  \<open>PAwaitable v\<close> is a coroutine whose result is \<open>v\<close>.
\<close>

datatype pyval =
    PNone
  | PBool bool
  | PInt int
  | PStr string
  | PClass pyclass
  | PUndefined
  | PFunction string
  | PInjected pyval pyval
  | PInstance nat pyclass bool
  | PAwaitable pyval

text \<open>\<^verbatim>\<open>type(v)\<close>.\<close>

fun py_type :: "pyval \<Rightarrow> pyclass" where
  "py_type PNone = NoneType_class"
| "py_type (PBool _) = bool_class"
| "py_type (PInt _) = int_class"
| "py_type (PStr _) = str_class"
| "py_type (PClass _) = class_type"
| "py_type PUndefined = Undefined_class"
| "py_type (PFunction _) = function_class"
| "py_type (PInjected _ _) = Injected_class"
| "py_type (PInstance _ c _) = c"
| "py_type (PAwaitable _) = coroutine_class"

text \<open>
  \<^verbatim>\<open>bool(v)\<close>, the test of \<^verbatim>\<open>if v:\<close>. Neither \<^verbatim>\<open>Undefined\<close> nor \<^verbatim>\<open>Injected\<close> defines
  \<^verbatim>\<open>__bool__\<close> or \<^verbatim>\<open>__len__\<close>, so their instances are true.
\<close>

fun truthy :: "pyval \<Rightarrow> bool" where
  "truthy PNone = False"
| "truthy (PBool b) = b"
| "truthy (PInt i) = (i \<noteq> 0)"
| "truthy (PStr s) = (s \<noteq> [])"
| "truthy (PClass _) = True"
| "truthy PUndefined = True"
| "truthy (PFunction _) = True"
| "truthy (PInjected _ _) = True"
| "truthy (PInstance _ _ b) = b"
| "truthy (PAwaitable _) = True"

text \<open>The exceptions of the module, and those Python raises on its behalf.\<close>

datatype message =
    MustSpecifyOne           \<comment> \<open>Must specify one of `callback` or `type`\<close>
  | OnlyOne                  \<comment> \<open>Only one of `callback` or `type` can be specified\<close>
  | PositionalOnly           \<comment> \<open>Injected positional only arguments are not supported\<close>
  | CouldntResolve pyclass   \<comment> \<open>Couldn't resolve injected type {type_} to actual value\<close>
  | InjectorAlreadySet       \<comment> \<open>Injector already set for this check\<close>
  | InjectorNotSet           \<comment> \<open>Cannot call an injectable check before the injector has been set\<close>

datatype error =
    ValueError message
  | RuntimeError message
  | TypeError
  | AttributeError string
  | AssertionError

text \<open>
  \<^verbatim>\<open>isinstance(obj, classinfo)\<close>: the second argument has to be a class; anything else
  raises \<^verbatim>\<open>TypeError\<close> (isinstance() arg 2 must be a type, a tuple of types, or a union).
  Tuples and unions of classes are not among the values of this development.
\<close>

fun isinstance :: "pyval \<Rightarrow> pyval \<Rightarrow> error + bool" where
  "isinstance obj (PClass c) = Inr (issubclass (py_type obj) c)"
| "isinstance obj _ = Inl TypeError"

text \<open>Attribute access \<^verbatim>\<open>v.callback\<close> and \<^verbatim>\<open>v.type\<close>: only a marker has these slots.\<close>

fun get_callback :: "pyval \<Rightarrow> error + pyval" where
  "get_callback (PInjected cb ty) = Inr cb"
| "get_callback _ = Inl (AttributeError ''callback'')"

fun get_type :: "pyval \<Rightarrow> error + pyval" where
  "get_type (PInjected cb ty) = Inr ty"
| "get_type _ = Inl (AttributeError ''type'')"

section \<open>The injection marker\<close>

text \<open>\<^verbatim>\<open>Injected.__init__(*, callback=UNDEFINED, type=UNDEFINED)\<close>.\<close>

definition Injected_init :: "pyval \<Rightarrow> pyval \<Rightarrow> error + pyval" where
  "Injected_init cb ty =
     (if cb = PUndefined \<and> ty = PUndefined then Inl (ValueError MustSpecifyOne)
      else if cb \<noteq> PUndefined \<and> ty \<noteq> PUndefined then Inl (ValueError OnlyOne)
      else Inr (PInjected cb ty))"

section \<open>The registry\<close>

text \<open>
  The state of an \<^verbatim>\<open>InjectorClient\<close>. The attribute \<^verbatim>\<open>_component_mapping\<close> refers to a
  dict object that \<^verbatim>\<open>_get_component_mapping\<close> clears and replaces, so dict objects live
  in a store (\<open>dict_store\<close>, by address) and the attribute holds an address. The attribute
  \<^verbatim>\<open>_client\<close> refers to the host; what \<^verbatim>\<open>self._client.components\<close> yields at the time of a
  call is an argument of the operations that read it (a list, in the order the collection
  iterates; its elements as a set are what the comparison sees).
\<close>

record injector_client =
  callback_overrides :: "pyval \<rightharpoonup> pyval"
  component_mapping_values :: "pyval set"
  component_mapping :: nat
  type_dependencies :: "pyclass \<rightharpoonup> pyval"
  dict_store :: "nat \<rightharpoonup> (pyclass \<rightharpoonup> pyval)"

definition InjectorClient_init :: injector_client where
  "InjectorClient_init =
     \<lparr>callback_overrides = Map.empty,
      component_mapping_values = {},
      component_mapping = 0,
      type_dependencies = Map.empty,
      dict_store = [0 \<mapsto> Map.empty]\<rparr>"

definition add_type_dependency :: "pyclass \<Rightarrow> pyval \<Rightarrow> injector_client \<Rightarrow> injector_client" where
  "add_type_dependency ty v st = st\<lparr>type_dependencies := (type_dependencies st)(ty \<mapsto> v)\<rparr>"

definition get_type_dependency :: "pyclass \<Rightarrow> injector_client \<Rightarrow> pyval" where
  "get_type_dependency ty st =
     (case type_dependencies st ty of None \<Rightarrow> PUndefined | Some v \<Rightarrow> v)"

definition add_callable_override :: "pyval \<Rightarrow> pyval \<Rightarrow> injector_client \<Rightarrow> injector_client" where
  "add_callable_override cb ov st = st\<lparr>callback_overrides := (callback_overrides st)(cb \<mapsto> ov)\<rparr>"

definition get_callable_override :: "pyval \<Rightarrow> injector_client \<Rightarrow> pyval" where
  "get_callable_override cb st =
     (case callback_overrides st cb of None \<Rightarrow> PNone | Some ov \<Rightarrow> ov)"

text \<open>The dict comprehension \<^verbatim>\<open>{type(component): component for component in components}\<close>.\<close>

primrec component_dict :: "pyval list \<Rightarrow> (pyclass \<rightharpoonup> pyval) \<Rightarrow> (pyclass \<rightharpoonup> pyval)" where
  "component_dict [] m = m"
| "component_dict (c # cs) m = component_dict cs (m(py_type c \<mapsto> c))"

text \<open>
  \<^verbatim>\<open>_get_component_mapping\<close>: returns the (address of the) mapping and the updated registry.
  On a rebuild the old dict is cleared, a new dict is allocated at the next address, and
  the snapshot is replaced.
\<close>

definition get_component_mapping :: "pyval list \<Rightarrow> injector_client \<Rightarrow> nat \<times> injector_client" where
  "get_component_mapping components st =
     (if component_mapping_values st \<noteq> set components then
        let old = component_mapping st;
            new = Suc old
        in (new, st\<lparr>dict_store := (dict_store st)(old \<mapsto> Map.empty,
                                                    new \<mapsto> component_dict components Map.empty),
                     component_mapping := new,
                     component_mapping_values := set components\<rparr>)
      else (component_mapping st, st))"

text \<open>\<^verbatim>\<open>d.get(key)\<close> on the dict at an address: \<^verbatim>\<open>None\<close> when the key is absent.\<close>

definition dict_get :: "injector_client \<Rightarrow> nat \<Rightarrow> pyclass \<Rightarrow> pyval" where
  "dict_get st a k =
     (case dict_store st a of
        None \<Rightarrow> PNone
      | Some d \<Rightarrow> (case d k of None \<Rightarrow> PNone | Some v \<Rightarrow> v))"

section \<open>Getters\<close>

text \<open>
  The two abstract classes \<^verbatim>\<open>traits.Client\<close> and \<^verbatim>\<open>traits.Component\<close> are declared in
  another module; they are a parameter of everything that consults them, and they are
  taken to be classes without a subclass hook, so that \<^verbatim>\<open>issubclass\<close> against them is
  the nominal relation. The module
  imports \<^verbatim>\<open>traits\<close> under \<^verbatim>\<open>typing.TYPE_CHECKING\<close> only and yet names it at run time
  (lines 44, 127 and 128); here the name is taken to be bound.
\<close>

record traits =
  Client :: pyclass
  Component :: pyclass

text \<open>\<^verbatim>\<open>traits.Context\<close>: its \<^verbatim>\<open>client\<close>, and its \<^verbatim>\<open>component\<close> (\<^verbatim>\<open>None\<close> when there is none).\<close>

record Context =
  client :: pyval
  component :: pyval

text \<open>
  A getter is a closure; it is represented by the variables it captures. \<open>CallbackGetter\<close>
  is the inner \<^verbatim>\<open>get\<close> of \<^verbatim>\<open>_make_callback_getter\<close> (it captures \<^verbatim>\<open>callback\<close>), \<open>TypeGetter\<close>
  the inner \<^verbatim>\<open>get\<close> of \<^verbatim>\<open>_make_type_getter\<close> (it captures \<^verbatim>\<open>type_\<close>, \<^verbatim>\<open>default_to_client\<close>
  and \<^verbatim>\<open>try_component\<close>). Both also capture \<^verbatim>\<open>self\<close>: the registry is an argument of \<open>get\<close>.
\<close>

datatype getter =
    CallbackGetter pyval
  | TypeGetter pyclass bool bool

definition make_callback_getter :: "pyval \<Rightarrow> getter" where
  "make_callback_getter cb = CallbackGetter cb"

text \<open>\<^verbatim>\<open>issubclass\<close> raises \<^verbatim>\<open>TypeError\<close> when its first argument is not a class.\<close>

fun make_type_getter :: "traits \<Rightarrow> pyval \<Rightarrow> error + getter" where
  "make_type_getter tr (PClass ty) =
     Inr (TypeGetter ty (issubclass ty (Client tr)) (issubclass ty (Component tr)))"
| "make_type_getter tr _ = Inl TypeError"

text \<open>
  Running a getter on a context: the result (or the exception) and the registry afterwards,
  which differs from the one before when the component mapping was rebuilt.
\<close>

fun get :: "getter \<Rightarrow> Context \<Rightarrow> pyval list \<Rightarrow> injector_client \<Rightarrow> (error + pyval) \<times> injector_client" where
  "get (CallbackGetter cb) ctx components st =
     (Inr (case callback_overrides st cb of None \<Rightarrow> cb | Some ov \<Rightarrow> ov), st)"
| "get (TypeGetter ty default_to_client try_component) ctx components st =
     (case type_dependencies st ty of
        Some v \<Rightarrow> (Inr v, st)
      | None \<Rightarrow>
          if default_to_client then (Inr (client ctx), st)
          else if try_component then
            (let (a, st') = get_component_mapping components st;
                 v = dict_get st' a ty
             in if truthy v then (Inr v, st')
                else if truthy (component ctx) then (Inr (component ctx), st')
                else (Inl (RuntimeError (CouldntResolve ty)), st'))
          else (Inl (RuntimeError (CouldntResolve ty)), st))"

section \<open>The signature resolver\<close>

datatype kind = POSITIONAL_ONLY | POSITIONAL_OR_KEYWORD | VAR_POSITIONAL | KEYWORD_ONLY | VAR_KEYWORD

text \<open>
  One entry of \<^verbatim>\<open>inspect.signature(callback).parameters\<close>; \<open>default_value\<close> is
  \<^verbatim>\<open>parameter.default\<close>, the class \<^verbatim>\<open>Parameter.empty\<close> when the parameter declares none.
\<close>

record parameter =
  name :: string
  kind :: kind
  default_value :: pyval

text \<open>
  A callable: its signature, and what calling it with positional and keyword arguments
  returns or raises.
\<close>

record pycallable =
  parameters :: "parameter list"
  invoke :: "pyval list \<Rightarrow> (string \<times> pyval) list \<Rightarrow> error + pyval"

text \<open>\<^verbatim>\<open>d[key] = v\<close> on an insertion-ordered dict.\<close>

fun dict_set :: "'k \<Rightarrow> 'v \<Rightarrow> ('k \<times> 'v) list \<Rightarrow> ('k \<times> 'v) list" where
  "dict_set k v [] = [(k, v)]"
| "dict_set k v ((k', v') # d) = (if k = k' then (k, v) # d else (k', v') # dict_set k v d)"

text \<open>Lines 158 to 166: the part of the loop body after the marker test.\<close>

definition injected_getter :: "traits \<Rightarrow> parameter \<Rightarrow> (string \<times> getter) list \<Rightarrow> error + (string \<times> getter) list" where
  "injected_getter tr p getters =
     (if kind p = POSITIONAL_ONLY then Inl (ValueError PositionalOnly)
      else
        (case get_callback (default_value p) of
           Inl e \<Rightarrow> Inl e
         | Inr cb \<Rightarrow>
             if truthy cb then Inr (dict_set (name p) (make_callback_getter cb) getters)
             else
               (case get_type (default_value p) of
                  Inl e \<Rightarrow> Inl e
                | Inr ty \<Rightarrow>
                    if ty = PUndefined then Inl AssertionError
                    else
                      (case make_type_getter tr ty of
                         Inl e \<Rightarrow> Inl e
                       | Inr g \<Rightarrow> Inr (dict_set (name p) g getters)))))"

text \<open>
  The loop body. The marker test is
  \<^verbatim>\<open>parameter.default is parameter.default and not isinstance(Injected, parameter.default)\<close>:
  the first conjunct compares an object with itself, and the second asks whether the
  class \<^verbatim>\<open>Injected\<close> is an instance of the default.
\<close>

definition resolve_parameter :: "traits \<Rightarrow> parameter \<Rightarrow> (string \<times> getter) list \<Rightarrow> error + (string \<times> getter) list" where
  "resolve_parameter tr p getters =
     (case isinstance (PClass Injected_class) (default_value p) of
        Inl e \<Rightarrow> Inl e
      | Inr is_inst \<Rightarrow>
          if default_value p = default_value p \<and> \<not> is_inst then Inr getters
          else injected_getter tr p getters)"

fun resolve_parameters :: "traits \<Rightarrow> parameter list \<Rightarrow> (string \<times> getter) list \<Rightarrow> error + (string \<times> getter) list" where
  "resolve_parameters tr [] getters = Inr getters"
| "resolve_parameters tr (p # ps) getters =
     (case resolve_parameter tr p getters of
        Inl e \<Rightarrow> Inl e
      | Inr getters' \<Rightarrow> resolve_parameters tr ps getters')"

definition resolve_callback_to_getters :: "traits \<Rightarrow> pycallable \<Rightarrow> error + (string \<times> getter) list" where
  "resolve_callback_to_getters tr cb = resolve_parameters tr (parameters cb) []"

section \<open>The injectable check\<close>

text \<open>
  A slot of a class with \<^verbatim>\<open>__slots__\<close> holds nothing until it is assigned; reading it
  before raises \<^verbatim>\<open>AttributeError\<close>. \<^verbatim>\<open>__init__\<close> assigns \<^verbatim>\<open>callback\<close>, \<^verbatim>\<open>injector\<close> and
  \<^verbatim>\<open>is_async\<close>; for \<^verbatim>\<open>_cached_getters\<close> it has an annotation and no assignment.
  \<open>injector\<close> is a reference to a registry object: its address among the registries, and
  the truth value of the object. An instance of \<^verbatim>\<open>InjectorClient\<close> itself is true (the class
  defines neither \<^verbatim>\<open>__bool__\<close> nor \<^verbatim>\<open>__len__\<close>); an instance of a subclass that defines one of
  them can be false.
\<close>

datatype 'a slot = Unset | Assigned 'a

record registry_ref =
  address :: nat
  truth :: bool

record injectable_check =
  callback :: pycallable
  cached_getters :: "(string \<times> getter) list option slot"
  injector :: "registry_ref option"
  is_async :: "bool option"

definition InjectableCheck_init :: "pycallable \<Rightarrow> injectable_check" where
  "InjectableCheck_init cb =
     \<lparr>callback = cb, cached_getters = Unset, injector = None, is_async = None\<rparr>"

text \<open>The truth value of the attribute \<^verbatim>\<open>self.injector\<close>: \<^verbatim>\<open>None\<close> is false.\<close>

definition injector_truthy :: "registry_ref option \<Rightarrow> bool" where
  "injector_truthy i = (case i of None \<Rightarrow> False | Some r \<Rightarrow> truth r)"

text \<open>
  \<^verbatim>\<open>add_injector\<close>. The test is \<^verbatim>\<open>if self.injector:\<close>, the truth value of the attribute,
  where \<^verbatim>\<open>__call__\<close> tests \<^verbatim>\<open>self.injector is None\<close>.
\<close>

definition add_injector :: "registry_ref \<Rightarrow> injectable_check \<Rightarrow> error + injectable_check" where
  "add_injector r w =
     (if injector_truthy (injector w) then Inl (RuntimeError InjectorAlreadySet)
      else Inr (w\<lparr>injector := Some r\<rparr>))"

text \<open>The dict comprehension \<^verbatim>\<open>{name: getter(ctx) for name, getter in getters.items()}\<close>.\<close>

fun resolve_getters :: "(string \<times> getter) list \<Rightarrow> Context \<Rightarrow> pyval list \<Rightarrow> injector_client \<Rightarrow>
    (error + (string \<times> pyval) list) \<times> injector_client" where
  "resolve_getters [] ctx components st = (Inr [], st)"
| "resolve_getters ((n, g) # gs) ctx components st =
     (case get g ctx components st of
        (Inl e, st') \<Rightarrow> (Inl e, st')
      | (Inr v, st') \<Rightarrow>
          (case resolve_getters gs ctx components st' of
             (Inl e, st'') \<Rightarrow> (Inl e, st'')
           | (Inr kvs, st'') \<Rightarrow> (Inr ((n, v) # kvs), st'')))"

text \<open>\<^verbatim>\<open>f(*d)\<close> for a dict \<open>d\<close>: the keys of \<open>d\<close>, in order, as positional arguments.\<close>

definition star_dict :: "(string \<times> pyval) list \<Rightarrow> pyval list" where
  "star_dict d = map (\<lambda>kv. PStr (fst kv)) d"

fun is_awaitable :: "pyval \<Rightarrow> bool" where
  "is_awaitable (PAwaitable v) = True"
| "is_awaitable _ = False"

text \<open>Lines 203 to 213: deciding whether to await, and the two assertions.\<close>

definition finish_call :: "injectable_check \<Rightarrow> pyval \<Rightarrow> (error + pyval) \<times> injectable_check" where
  "finish_call w result =
     (let w' = (if is_async w = None then w\<lparr>is_async := Some (is_awaitable result)\<rparr> else w)
      in if is_async w' = Some True then
           (case result of
              PAwaitable v \<Rightarrow> (Inr v, w')
            | _ \<Rightarrow> (Inl AssertionError, w'))
         else
           (case result of
              PBool b \<Rightarrow> (Inr (PBool b), w')
            | _ \<Rightarrow> (Inl AssertionError, w')))"

text \<open>Line 201 onwards, for the getters read from the slot.\<close>

definition call_with_getters :: "injectable_check \<Rightarrow> (string \<times> getter) list \<Rightarrow> Context \<Rightarrow>
    pyval list \<Rightarrow> nat \<Rightarrow> (nat \<Rightarrow> injector_client) \<Rightarrow>
    (error + pyval) \<times> injectable_check \<times> (nat \<Rightarrow> injector_client)" where
  "call_with_getters w getters ctx components r regs =
     (case resolve_getters getters ctx components (regs r) of
        (Inl e, st') \<Rightarrow> (Inl e, w, regs(r := st'))
      | (Inr d, st') \<Rightarrow>
          (case invoke (callback w) (star_dict d) [] of
             Inl e \<Rightarrow> (Inl e, w, regs(r := st'))
           | Inr result \<Rightarrow>
               (case finish_call w result of
                  (res, w') \<Rightarrow> (res, w', regs(r := st')))))"

text \<open>
  \<^verbatim>\<open>__call__\<close>, awaited: the result or the exception, the wrapper afterwards and the
  registries afterwards. \<open>components\<close> is what the host of the attached registry exposes.
\<close>

definition call :: "traits \<Rightarrow> injectable_check \<Rightarrow> Context \<Rightarrow> pyval list \<Rightarrow> (nat \<Rightarrow> injector_client) \<Rightarrow>
    (error + pyval) \<times> injectable_check \<times> (nat \<Rightarrow> injector_client)" where
  "call tr w ctx components regs =
     (case injector w of
        None \<Rightarrow> (Inl (RuntimeError InjectorNotSet), w, regs)
      | Some r \<Rightarrow>
          (case cached_getters w of
             Unset \<Rightarrow> (Inl (AttributeError ''_cached_getters''), w, regs)
           | Assigned None \<Rightarrow>
               (case resolve_callback_to_getters tr (callback w) of
                  Inl e \<Rightarrow> (Inl e, w, regs)
                | Inr getters \<Rightarrow>
                    call_with_getters (w\<lparr>cached_getters := Assigned (Some getters)\<rparr>)
                      getters ctx components (address r) regs)
           | Assigned (Some getters) \<Rightarrow>
               call_with_getters w getters ctx components (address r) regs))"

text \<open>
  The operations of a wrapper. An exception leaves the wrapper and the registries as they
  were when it was raised.
\<close>

datatype operation = AddInjector registry_ref | Call Context "pyval list"

fun step :: "traits \<Rightarrow> operation \<Rightarrow> injectable_check \<times> (nat \<Rightarrow> injector_client) \<Rightarrow>
    injectable_check \<times> (nat \<Rightarrow> injector_client)" where
  "step tr (AddInjector r) (w, regs) =
     (case add_injector r w of Inl e \<Rightarrow> (w, regs) | Inr w' \<Rightarrow> (w', regs))"
| "step tr (Call ctx components) (w, regs) = snd (call tr w ctx components regs)"

section \<open>The resolution order, as a specification\<close>

text \<open>
  The dict that \<^verbatim>\<open>_get_component_mapping\<close> returns, as a map: what
  ``the component mapping resolves \<open>t\<close>'' refers to.
\<close>

definition resolved_mapping :: "pyval list \<Rightarrow> injector_client \<Rightarrow> (pyclass \<rightharpoonup> pyval)" where
  "resolved_mapping components st =
     (case get_component_mapping components st of
        (a, st') \<Rightarrow> (case dict_store st' a of None \<Rightarrow> Map.empty | Some d \<Rightarrow> d))"

text \<open>
  The resolution order in words, for a requested type \<open>t\<close>:
  \<^enum> an entry for \<open>t\<close> in the type dependencies: that value;
  \<^enum> else \<open>t\<close> is the client interface or a subclass of it: the client of the context;
  \<^enum> else \<open>t\<close> is the component interface or a subclass of it, and the component mapping
    holds a true component under \<open>t\<close>: that component;
  \<^enum> else \<open>t\<close> is the component interface or a subclass of it, and the current component
    of the context is true: the current component;
  \<^enum> else the error that names \<open>t\<close>.
\<close>

definition holds_true :: "(pyclass \<rightharpoonup> pyval) \<Rightarrow> pyclass \<Rightarrow> bool" where
  "holds_true m t = (case m t of None \<Rightarrow> False | Some c \<Rightarrow> truthy c)"

definition resolution_order :: "traits \<Rightarrow> pyclass \<Rightarrow> Context \<Rightarrow> (pyclass \<rightharpoonup> pyval) \<Rightarrow>
    (pyclass \<rightharpoonup> pyval) \<Rightarrow> error + pyval" where
  "resolution_order tr t ctx deps mapping =
     (if deps t \<noteq> None then Inr (the (deps t))
      else if issubclass t (Client tr) then Inr (client ctx)
      else if issubclass t (Component tr) \<and> holds_true mapping t then Inr (the (mapping t))
      else if issubclass t (Component tr) \<and> truthy (component ctx) then Inr (component ctx)
      else Inl (RuntimeError (CouldntResolve t)))"

section \<open>Example objects\<close>

definition example_traits :: traits where
  "example_traits =
     \<lparr>Client = PyClass ''tanjun.traits.Client'' [object_class],
      Component = PyClass ''tanjun.traits.Component'' [object_class]\<rparr>"

text \<open>A class related to neither interface, and two of its instances.\<close>

definition Config :: pyclass where
  "Config = PyClass ''Config'' [object_class]"

definition cfg1 :: pyval where
  "cfg1 = PInstance 1 Config True"

definition cfg2 :: pyval where
  "cfg2 = PInstance 2 Config True"

text \<open>A client class, a component class, and a class that derives from both interfaces.\<close>

definition MyClient :: pyclass where
  "MyClient = PyClass ''MyClient'' [PyClass ''tanjun.traits.Client'' [object_class]]"

definition MyComponent :: pyclass where
  "MyComponent = PyClass ''MyComponent'' [PyClass ''tanjun.traits.Component'' [object_class]]"

definition Both :: pyclass where
  "Both = PyClass ''Both'' [PyClass ''tanjun.traits.Client'' [object_class],
                            PyClass ''tanjun.traits.Component'' [object_class]]"

text \<open>A second client class, related to \<open>MyClient\<close> through the interface only.\<close>

definition OtherClient :: pyclass where
  "OtherClient = PyClass ''OtherClient'' [PyClass ''tanjun.traits.Client'' [object_class]]"

definition the_client :: pyval where
  "the_client = PInstance 3 MyClient True"

definition a_component :: pyval where
  "a_component = PInstance 4 MyComponent True"

text \<open>Components whose truth value is false (their class defines \<^verbatim>\<open>__len__\<close> or \<^verbatim>\<open>__bool__\<close>).\<close>

definition empty_component :: pyval where
  "empty_component = PInstance 5 MyComponent False"

definition empty_both :: pyval where
  "empty_both = PInstance 6 Both False"

definition ctx_with_component :: Context where
  "ctx_with_component = \<lparr>client = the_client, component = a_component\<rparr>"

definition ctx_without_component :: Context where
  "ctx_without_component = \<lparr>client = the_client, component = PNone\<rparr>"

text \<open>
  \<^verbatim>\<open>def check(cfg=Injected(type=Config)): return cfg.enabled\<close>, where \<^verbatim>\<open>cfg1.enabled\<close> is
  \<^verbatim>\<open>True\<close>, \<^verbatim>\<open>cfg2.enabled\<close> is \<^verbatim>\<open>False\<close> and no other value has the attribute.
\<close>

definition cfg_marker :: pyval where
  "cfg_marker = PInjected PUndefined (PClass Config)"

definition enabled :: "pyval \<Rightarrow> error + pyval" where
  "enabled v =
     (if v = cfg1 then Inr (PBool True)
      else if v = cfg2 then Inr (PBool False)
      else Inl (AttributeError ''enabled''))"

fun check_invoke :: "pyval list \<Rightarrow> (string \<times> pyval) list \<Rightarrow> error + pyval" where
  "check_invoke [] [] = enabled cfg_marker"
| "check_invoke [v] [] = enabled v"
| "check_invoke [] [(k, v)] = (if k = ''cfg'' then enabled v else Inl TypeError)"
| "check_invoke _ _ = Inl TypeError"

definition check :: pycallable where
  "check =
     \<lparr>parameters = [\<lparr>name = ''cfg'', kind = POSITIONAL_OR_KEYWORD, default_value = cfg_marker\<rparr>],
      invoke = check_invoke\<rparr>"

text \<open>
  Three registries: an \<^verbatim>\<open>InjectorClient\<close>; an instance of a subclass of \<^verbatim>\<open>InjectorClient\<close>
  whose \<^verbatim>\<open>__len__\<close> returns 0, so that the object is false; and another \<^verbatim>\<open>InjectorClient\<close>.
\<close>

definition first_registry :: registry_ref where
  "first_registry = \<lparr>address = 0, truth = True\<rparr>"

definition empty_registry :: registry_ref where
  "empty_registry = \<lparr>address = 1, truth = False\<rparr>"

definition second_registry :: registry_ref where
  "second_registry = \<lparr>address = 2, truth = True\<rparr>"

text \<open>\<^verbatim>\<open>def plain(ctx, limit=5): ...\<close>: no marker, one ordinary default.\<close>

definition plain :: pycallable where
  "plain =
     \<lparr>parameters = [\<lparr>name = ''ctx'', kind = POSITIONAL_OR_KEYWORD, default_value = PClass Parameter_empty\<rparr>,
                    \<lparr>name = ''limit'', kind = POSITIONAL_OR_KEYWORD, default_value = PInt 5\<rparr>],
      invoke = (\<lambda>args kwargs. Inr (PBool True))\<rparr>"

text \<open>\<^verbatim>\<open>def bare(ctx): ...\<close>: one parameter, no default.\<close>

definition bare :: pycallable where
  "bare =
     \<lparr>parameters = [\<lparr>name = ''ctx'', kind = POSITIONAL_OR_KEYWORD, default_value = PClass Parameter_empty\<rparr>],
      invoke = (\<lambda>args kwargs. Inr (PBool True))\<rparr>"

section \<open>Facts about the example objects\<close>

lemma example_classes:
  "issubclass MyClient (Client example_traits)"
  "\<not> issubclass MyClient (Component example_traits)"
  "\<not> issubclass MyComponent (Client example_traits)"
  "issubclass MyComponent (Component example_traits)"
  "issubclass Both (Client example_traits)"
  "issubclass Both (Component example_traits)"
  "\<not> issubclass Config (Client example_traits)"
  "\<not> issubclass (Client example_traits) Config"
  "\<not> issubclass Config (Component example_traits)"
  "\<not> issubclass object_class (Client example_traits)"
  "\<not> issubclass object_class (Component example_traits)"
  "issubclass MyClient object_class"
  "issubclass (Client example_traits) object_class"
  "issubclass OtherClient (Client example_traits)"
  "\<not> issubclass OtherClient (Component example_traits)"
  "\<not> issubclass OtherClient MyClient"
  "\<not> issubclass MyClient OtherClient"
  "\<not> issubclass OtherClient MyComponent"
  "\<not> issubclass MyComponent OtherClient"
  by (simp_all add: MyClient_def MyComponent_def Both_def Config_def example_traits_def
      object_class_def OtherClient_def)

lemma init_no_dependencies: "type_dependencies InjectorClient_init t = None"
  by (simp add: InjectorClient_init_def)

section \<open>Properties of the component mapping\<close>

lemma get_component_mapping_hit:
  "component_mapping_values st = set components \<Longrightarrow>
   get_component_mapping components st = (component_mapping st, st)"
  by (simp add: get_component_mapping_def)

lemma get_component_mapping_snapshot:
  "component_mapping_values (snd (get_component_mapping components st)) = set components"
  by (simp add: get_component_mapping_def Let_def)

lemma get_component_mapping_address:
  "fst (get_component_mapping components st) =
   component_mapping (snd (get_component_mapping components st))"
  by (simp add: get_component_mapping_def Let_def)

lemma get_component_mapping_miss:
  "component_mapping_values st \<noteq> set components \<Longrightarrow>
   fst (get_component_mapping components st) = Suc (component_mapping st)"
  by (simp add: get_component_mapping_def Let_def)

text \<open>
  C9. Two calls of \<^verbatim>\<open>_get_component_mapping\<close> between which the host's components do not
  change as a set (the order of iteration may): the second call returns the dict object
  the first returned (the same address \<open>a1\<close>) and leaves the registry, hence the content
  of that dict, as the first call left it. A call allocates a new dict exactly when the
  stored snapshot differs from the host's components as a set, and it changes the
  registry exactly then.
\<close>

theorem component_mapping_cached:
  assumes same: "set components' = set components"
    and first: "get_component_mapping components st = (a1, st1)"
  shows "get_component_mapping components' st1 = (a1, st1) \<and>
         (component_mapping st1 \<noteq> component_mapping st \<longleftrightarrow>
            component_mapping_values st \<noteq> set components) \<and>
         (st1 \<noteq> st \<longleftrightarrow> component_mapping_values st \<noteq> set components)"
proof -
  have snap: "component_mapping_values st1 = set components'"
    using get_component_mapping_snapshot [of components st] first same by simp
  have addr: "a1 = component_mapping st1"
    using get_component_mapping_address [of components st] first by simp
  have hit: "get_component_mapping components' st1 = (a1, st1)"
    using get_component_mapping_hit [OF snap] addr by simp
  have only: "component_mapping st1 \<noteq> component_mapping st \<longleftrightarrow>
      component_mapping_values st \<noteq> set components"
  proof (cases "component_mapping_values st = set components")
    case True
    then show ?thesis using get_component_mapping_hit [OF True] first by simp
  next
    case False
    then have "a1 = Suc (component_mapping st)"
      using get_component_mapping_miss [OF False] first by simp
    then show ?thesis using False addr by simp
  qed
  have changed: "st1 \<noteq> st \<longleftrightarrow> component_mapping_values st \<noteq> set components"
  proof (cases "component_mapping_values st = set components")
    case True
    then show ?thesis using get_component_mapping_hit [OF True] first by simp
  next
    case False
    with only have "component_mapping st1 \<noteq> component_mapping st" by simp
    then have "st1 \<noteq> st" by auto
    with False show ?thesis by simp
  qed
  from hit only changed show ?thesis by simp
qed

text \<open>
  On a new registry whose host has one component the first call rebuilds (the dict at
  address 1 replaces the one at address 0) and the second call, made on the registry the
  first one left, returns the same.
\<close>

theorem component_mapping_cached_witness:
  "set [a_component] = set [a_component] \<and>
   component_mapping_values InjectorClient_init \<noteq> set [a_component] \<and>
   fst (get_component_mapping [a_component] InjectorClient_init) = 1 \<and>
   get_component_mapping [a_component] (snd (get_component_mapping [a_component] InjectorClient_init)) =
     get_component_mapping [a_component] InjectorClient_init \<and>
   snd (get_component_mapping [a_component] InjectorClient_init) \<noteq> InjectorClient_init"
proof -
  have first: "get_component_mapping [a_component] InjectorClient_init =
      (fst (get_component_mapping [a_component] InjectorClient_init),
       snd (get_component_mapping [a_component] InjectorClient_init))"
    by simp
  have differs: "component_mapping_values InjectorClient_init \<noteq> set [a_component]"
    by (simp add: InjectorClient_init_def)
  have addr: "fst (get_component_mapping [a_component] InjectorClient_init) = 1"
    using get_component_mapping_miss [OF differs] by (simp add: InjectorClient_init_def)
  note c = component_mapping_cached [OF refl first]
  have hit: "get_component_mapping [a_component]
        (snd (get_component_mapping [a_component] InjectorClient_init)) =
      get_component_mapping [a_component] InjectorClient_init"
    using c by simp
  have changed: "snd (get_component_mapping [a_component] InjectorClient_init) \<noteq> InjectorClient_init"
    using c differs by blast
  from hit differs addr changed show ?thesis by simp
qed

section \<open>Properties of the type getter\<close>

lemma dict_get_resolved:
  "get_component_mapping components st = (a, st') \<Longrightarrow>
   dict_get st' a t = (case resolved_mapping components st t of None \<Rightarrow> PNone | Some v \<Rightarrow> v)"
  by (simp add: dict_get_def resolved_mapping_def split: option.splits)

lemma get_type_getter:
  "fst (get (TypeGetter t (issubclass t (Client tr)) (issubclass t (Component tr))) ctx components st) =
   resolution_order tr t ctx (type_dependencies st) (resolved_mapping components st)"
proof (cases "type_dependencies st t")
  case (Some v)
  then show ?thesis by (simp add: resolution_order_def)
next
  case None
  obtain a st' where m: "get_component_mapping components st = (a, st')"
    by (cases "get_component_mapping components st")
  show ?thesis
  proof (cases "resolved_mapping components st t")
    case no_entry: None
    have "dict_get st' a t = PNone"
      using dict_get_resolved [OF m, of t] no_entry by simp
    with None m no_entry show ?thesis
      by (simp add: resolution_order_def holds_true_def)
  next
    case entry: (Some c)
    have "dict_get st' a t = c"
      using dict_get_resolved [OF m, of t] entry by simp
    with None m entry show ?thesis
      by (simp add: resolution_order_def holds_true_def)
  qed
qed

text \<open>
  C2, as stated, fails on the code. A type \<open>Config\<close> that is related to neither
  interface and has no type dependency is requested in a context whose current component
  is present and true: the claim's step (4) returns that component, the getter raises the
  error. And \<open>object\<close>, a supertype of the client's class, is requested: the claim's step
  (2) returns the client of the context, the getter raises the error.
\<close>

theorem fallback_only_for_component_types:
  "make_type_getter example_traits (PClass Config) = Inr (TypeGetter Config False False) \<and>
   type_dependencies InjectorClient_init Config = None \<and>
   truthy (component ctx_with_component) \<and>
   fst (get (TypeGetter Config False False) ctx_with_component [a_component] InjectorClient_init) =
     Inl (RuntimeError (CouldntResolve Config)) \<and>
   make_type_getter example_traits (PClass object_class) = Inr (TypeGetter object_class False False) \<and>
   py_type (client ctx_with_component) = MyClient \<and>
   issubclass MyClient object_class \<and>
   fst (get (TypeGetter object_class False False) ctx_with_component [a_component] InjectorClient_init) =
     Inl (RuntimeError (CouldntResolve object_class))"
  by (simp add: example_classes ctx_with_component_def a_component_def the_client_def
      init_no_dependencies)

text \<open>
  C2, amended. For every class \<open>t\<close>, \<^verbatim>\<open>_make_type_getter\<close> returns a getter, and on every
  context, every collection of host components and every state of the registry the
  getter yields what \<open>resolution_order\<close> says, evaluated on the type dependencies and the
  component mapping of that call: (1) the value registered for \<open>t\<close>; (2) else, when \<open>t\<close> is
  the client interface or a subclass of it, the client of the context; (3) else, when
  \<open>t\<close> is the component interface or a subclass of it and the component mapping holds a
  true component under \<open>t\<close>, that component; (4) else, when \<open>t\<close> is the component interface
  or a subclass of it and the current component of the context is true, the current
  component; (5) else the error that names \<open>t\<close>.
\<close>

theorem type_getter_resolution_order:
  "\<exists>g. make_type_getter tr (PClass t) = Inr g \<and>
       fst (get g ctx components st) =
       resolution_order tr t ctx (type_dependencies st) (resolved_mapping components st)"
proof (intro exI conjI)
  show "make_type_getter tr (PClass t) =
        Inr (TypeGetter t (issubclass t (Client tr)) (issubclass t (Component tr)))"
    by simp
  show "fst (get (TypeGetter t (issubclass t (Client tr)) (issubclass t (Component tr)))
          ctx components st) =
        resolution_order tr t ctx (type_dependencies st) (resolved_mapping components st)"
    by (rule get_type_getter)
qed

text \<open>One request for each of the five steps.\<close>

theorem type_getter_resolution_order_witness:
  "fst (get (TypeGetter MyClient True False) ctx_with_component []
         (add_type_dependency MyClient cfg1 InjectorClient_init)) = Inr cfg1 \<and>
   fst (get (TypeGetter MyClient True False) ctx_with_component [] InjectorClient_init) = Inr the_client \<and>
   fst (get (TypeGetter MyComponent False True) ctx_without_component [a_component] InjectorClient_init) =
     Inr a_component \<and>
   fst (get (TypeGetter MyComponent False True) ctx_with_component [] InjectorClient_init) =
     Inr a_component \<and>
   fst (get (TypeGetter MyComponent False True) ctx_without_component [] InjectorClient_init) =
     Inl (RuntimeError (CouldntResolve MyComponent))"
proof -
  have m1: "resolved_mapping [a_component] InjectorClient_init MyComponent = Some a_component"
    by (simp add: resolved_mapping_def get_component_mapping_def InjectorClient_init_def
        Let_def a_component_def)
  have m0: "resolved_mapping [] InjectorClient_init MyComponent = None"
    by (simp add: resolved_mapping_def get_component_mapping_def InjectorClient_init_def)
  have d0: "type_dependencies InjectorClient_init = Map.empty"
    by (simp add: InjectorClient_init_def)
  have t: "truthy a_component" by (simp add: a_component_def)
  show ?thesis
    using type_getter_resolution_order [of example_traits MyClient ctx_with_component "[]"
        "add_type_dependency MyClient cfg1 InjectorClient_init"]
      type_getter_resolution_order [of example_traits MyClient ctx_with_component "[]" InjectorClient_init]
      type_getter_resolution_order [of example_traits MyComponent ctx_without_component
        "[a_component]" InjectorClient_init]
      type_getter_resolution_order [of example_traits MyComponent ctx_with_component "[]" InjectorClient_init]
      type_getter_resolution_order [of example_traits MyComponent ctx_without_component "[]" InjectorClient_init]
    by (simp add: example_classes resolution_order_def holds_true_def m1 m0 d0 t
        add_type_dependency_def ctx_with_component_def ctx_without_component_def)
qed

text \<open>
  C3. After \<^verbatim>\<open>add_type_dependency(t, v)\<close> the getter of \<^verbatim>\<open>_make_type_getter(t)\<close> returns \<open>v\<close>
  on every context and leaves the registry as it is, whatever \<open>t\<close> is: the client
  interface, a component class, or a class related to neither.
\<close>

theorem type_dependency_wins:
  "\<exists>g. make_type_getter tr (PClass t) = Inr g \<and>
       get g ctx components (add_type_dependency t v st) = (Inr v, add_type_dependency t v st)"
  by (simp add: add_type_dependency_def)

text \<open>
  C8, as stated, fails on the code. The host client is an instance of \<open>MyClient\<close>. The
  class \<open>OtherClient\<close> has no type dependency, is not \<open>MyClient\<close>, is neither a subclass nor
  a superclass of it, and is related to no component class; but it derives from the client
  interface, and its getter returns the client of the context where the claim has it
  raise.
\<close>

theorem sibling_client_type_gets_client:
  "type_dependencies InjectorClient_init OtherClient = None \<and>
   py_type (client ctx_with_component) = MyClient \<and>
   OtherClient \<noteq> MyClient \<and>
   \<not> issubclass OtherClient MyClient \<and>
   \<not> issubclass MyClient OtherClient \<and>
   \<not> issubclass OtherClient (Component example_traits) \<and>
   py_type a_component = MyComponent \<and>
   \<not> issubclass OtherClient MyComponent \<and>
   \<not> issubclass MyComponent OtherClient \<and>
   make_type_getter example_traits (PClass OtherClient) = Inr (TypeGetter OtherClient True False) \<and>
   get (TypeGetter OtherClient True False) ctx_with_component [a_component] InjectorClient_init =
     (Inr the_client, InjectorClient_init)"
  by (simp add: example_classes init_no_dependencies ctx_with_component_def the_client_def
      a_component_def)
    (simp add: OtherClient_def MyClient_def)

text \<open>
  C8, amended. A class \<open>t\<close> with no type dependency that is neither the client interface
  \<^verbatim>\<open>traits.Client\<close> nor a subclass or a superclass of it, nor the component interface
  \<^verbatim>\<open>traits.Component\<close> or a subclass of it: the getter of \<^verbatim>\<open>_make_type_getter(t)\<close> raises, on
  every context, the \<^verbatim>\<open>RuntimeError\<close> whose message carries \<open>t\<close>, and leaves the registry as
  it is.
\<close>

theorem unresolved_type_raises:
  assumes "type_dependencies st t = None"
    and "\<not> issubclass t (Client tr)"
    and "\<not> issubclass (Client tr) t"
    and "\<not> issubclass t (Component tr)"
  shows "\<exists>g. make_type_getter tr (PClass t) = Inr g \<and>
           get g ctx components st = (Inl (RuntimeError (CouldntResolve t)), st)"
  using assms by simp

theorem unresolved_type_raises_witness:
  "type_dependencies InjectorClient_init Config = None \<and>
   \<not> issubclass Config (Client example_traits) \<and>
   \<not> issubclass (Client example_traits) Config \<and>
   \<not> issubclass Config (Component example_traits) \<and>
   get (TypeGetter Config False False) ctx_with_component [a_component] InjectorClient_init =
     (Inl (RuntimeError (CouldntResolve Config)), InjectorClient_init)"
proof -
  have h1: "type_dependencies InjectorClient_init Config = None"
    by (rule init_no_dependencies)
  have h2: "\<not> issubclass Config (Client example_traits)" by (simp add: example_classes)
  have h3: "\<not> issubclass (Client example_traits) Config" by (simp add: example_classes)
  have h4: "\<not> issubclass Config (Component example_traits)" by (simp add: example_classes)
  from unresolved_type_raises [OF h1 h2 h3 h4, of ctx_with_component "[a_component]"]
  show ?thesis using h1 h2 h3 h4 by simp
qed

text \<open>
  C10, as stated, fails on the code. The class \<open>Both\<close> derives from the component
  interface and from the client interface, has no type dependency, and the component
  mapping holds a false component under it. The getter neither returns the current
  component of the context, which is present and true, nor raises: it returns the client.
\<close>

theorem client_type_precedes_component:
  "type_dependencies InjectorClient_init Both = None \<and>
   issubclass Both (Component example_traits) \<and>
   resolved_mapping [empty_both] InjectorClient_init Both = Some empty_both \<and>
   \<not> truthy empty_both \<and>
   make_type_getter example_traits (PClass Both) = Inr (TypeGetter Both True True) \<and>
   truthy (component ctx_with_component) \<and>
   fst (get (TypeGetter Both True True) ctx_with_component [empty_both] InjectorClient_init) =
     Inr the_client \<and>
   the_client \<noteq> component ctx_with_component"
  by (simp add: example_classes resolved_mapping_def get_component_mapping_def
      InjectorClient_init_def Let_def empty_both_def ctx_with_component_def a_component_def
      the_client_def)

text \<open>
  C10, amended. A class \<open>t\<close> that is the component interface or a subclass of it, that is
  not the client interface or a subclass of it, and that has no type dependency: when
  the component mapping holds under \<open>t\<close> a component \<open>c\<close> whose truth value is false, the
  getter does not return \<open>c\<close>; it returns the current component of the context when that
  is true, and raises the error that names \<open>t\<close> otherwise.
\<close>

theorem falsy_mapped_component_skipped:
  assumes "type_dependencies st t = None"
    and "issubclass t (Component tr)"
    and "\<not> issubclass t (Client tr)"
    and "resolved_mapping components st t = Some c"
    and "\<not> truthy c"
  shows "\<exists>g. make_type_getter tr (PClass t) = Inr g \<and>
           fst (get g ctx components st) =
             (if truthy (component ctx) then Inr (component ctx)
              else Inl (RuntimeError (CouldntResolve t))) \<and>
           fst (get g ctx components st) \<noteq> Inr c"
proof -
  let ?g = "TypeGetter t (issubclass t (Client tr)) (issubclass t (Component tr))"
  have made: "make_type_getter tr (PClass t) = Inr ?g" by simp
  have "fst (get ?g ctx components st) =
        resolution_order tr t ctx (type_dependencies st) (resolved_mapping components st)"
    by (rule get_type_getter)
  also have "\<dots> = (if truthy (component ctx) then Inr (component ctx)
                   else Inl (RuntimeError (CouldntResolve t)))"
    using assms by (simp add: resolution_order_def holds_true_def)
  finally have res: "fst (get ?g ctx components st) =
      (if truthy (component ctx) then Inr (component ctx) else Inl (RuntimeError (CouldntResolve t)))" .
  have "fst (get ?g ctx components st) \<noteq> Inr c"
    using res assms(5) by (auto split: if_splits)
  with made res show ?thesis by blast
qed

theorem falsy_mapped_component_skipped_witness:
  "type_dependencies InjectorClient_init MyComponent = None \<and>
   issubclass MyComponent (Component example_traits) \<and>
   \<not> issubclass MyComponent (Client example_traits) \<and>
   resolved_mapping [empty_component] InjectorClient_init MyComponent = Some empty_component \<and>
   \<not> truthy empty_component \<and>
   fst (get (TypeGetter MyComponent False True) ctx_with_component [empty_component] InjectorClient_init) =
     Inr a_component \<and>
   fst (get (TypeGetter MyComponent False True) ctx_without_component [empty_component] InjectorClient_init) =
     Inl (RuntimeError (CouldntResolve MyComponent))"
proof -
  have h1: "type_dependencies InjectorClient_init MyComponent = None"
    by (rule init_no_dependencies)
  have h2: "issubclass MyComponent (Component example_traits)" by (simp add: example_classes)
  have h3: "\<not> issubclass MyComponent (Client example_traits)" by (simp add: example_classes)
  have h4: "resolved_mapping [empty_component] InjectorClient_init MyComponent = Some empty_component"
    by (simp add: resolved_mapping_def get_component_mapping_def InjectorClient_init_def
        Let_def empty_component_def)
  have h5: "\<not> truthy empty_component" by (simp add: empty_component_def)
  from falsy_mapped_component_skipped [OF h1 h2 h3 h4 h5, of ctx_with_component]
    falsy_mapped_component_skipped [OF h1 h2 h3 h4 h5, of ctx_without_component]
  show ?thesis using h1 h2 h3 h4 h5
    by (simp add: example_classes ctx_with_component_def ctx_without_component_def a_component_def)
qed

section \<open>Properties of the signature resolver\<close>

lemma issubclass_class_type:
  "issubclass class_type c \<longleftrightarrow> c = class_type \<or> c = object_class"
  by (auto simp: class_type_def object_class_def)

lemma marker_is_not_a_class:
  "resolve_parameter tr \<lparr>name = n, kind = k, default_value = PInjected cb ty\<rparr> getters = Inl TypeError"
  by (simp add: resolve_parameter_def)

lemma injected_getter_of_marker:
  assumes "Injected_init cb ty = Inr m" and "k \<noteq> POSITIONAL_ONLY"
  shows "injected_getter tr \<lparr>name = n, kind = k, default_value = m\<rparr> getters =
         (if truthy cb then Inr (dict_set n (CallbackGetter cb) getters) else Inl AssertionError)"
  using assms
  by (auto simp: Injected_init_def injected_getter_def make_callback_getter_def split: if_splits)

text \<open>
  Among the values of this development a parameter is skipped or the call raises: no
  parameter ever contributes an entry.
\<close>

lemma resolve_parameter_no_entry:
  "resolve_parameter tr p getters = Inr getters' \<Longrightarrow> getters' = getters"
  by (cases "default_value p")
     (auto simp: resolve_parameter_def injected_getter_def issubclass_class_type
        split: if_splits sum.splits)

lemma resolve_parameters_no_entry:
  "resolve_parameters tr ps getters = Inr getters' \<Longrightarrow> getters' = getters"
  by (induction ps arbitrary: getters)
     (auto split: sum.splits dest: resolve_parameter_no_entry)

lemma resolve_callback_to_getters_empty:
  "resolve_callback_to_getters tr cb = Inr getters \<Longrightarrow> getters = []"
  unfolding resolve_callback_to_getters_def by (rule resolve_parameters_no_entry)

text \<open>
  C1, where the code departs from the claim. For \<^verbatim>\<open>def check(cfg=Injected(type=Config))\<close>
  the marker test evaluates \<^verbatim>\<open>isinstance(Injected, parameter.default)\<close> with the marker as
  second argument, and \<^verbatim>\<open>resolve_callback_to_getters\<close> raises \<^verbatim>\<open>TypeError\<close>: the injected
  parameter contributes no entry. For \<^verbatim>\<open>def plain(ctx, limit=5)\<close> the ordinary default \<open>5\<close>
  raises \<^verbatim>\<open>TypeError\<close> too, where the claim has the parameter skipped. Only the parameter
  without a default, whose default is the class \<^verbatim>\<open>Parameter.empty\<close>, is skipped.
\<close>

theorem marker_parameter_raises:
  "resolve_callback_to_getters example_traits check = Inl TypeError \<and>
   resolve_callback_to_getters example_traits plain = Inl TypeError \<and>
   resolve_callback_to_getters example_traits bare = Inr []"
  by (simp add: resolve_callback_to_getters_def check_def plain_def bare_def cfg_marker_def
      resolve_parameter_def Parameter_empty_def class_type_def object_class_def)

text \<open>
  C5, where the code departs from the claim. The marker \<^verbatim>\<open>Injected(type=Config)\<close> holds
  \<^verbatim>\<open>UNDEFINED\<close> in its \<^verbatim>\<open>callback\<close> slot, and \<^verbatim>\<open>UNDEFINED\<close> is true; so lines 158 to 166,
  run on a parameter with that marker as default, take the branch of
  \<^verbatim>\<open>if parameter.default.callback:\<close> and store the callback getter of \<^verbatim>\<open>UNDEFINED\<close>, not
  the type getter of \<open>Config\<close>. The whole function does not get that far on this
  parameter: it raises \<^verbatim>\<open>TypeError\<close> at the marker test.
\<close>

theorem type_marker_gets_callback_getter:
  "Injected_init PUndefined (PClass Config) = Inr cfg_marker \<and>
   injected_getter example_traits
     \<lparr>name = ''cfg'', kind = POSITIONAL_OR_KEYWORD, default_value = cfg_marker\<rparr> [] =
     Inr [(''cfg'', CallbackGetter PUndefined)] \<and>
   make_type_getter example_traits (PClass Config) = Inr (TypeGetter Config False False) \<and>
   resolve_callback_to_getters example_traits check = Inl TypeError"
  by (simp add: injected_getter_def cfg_marker_def make_callback_getter_def Injected_init_def
      example_classes resolve_callback_to_getters_def check_def resolve_parameter_def)

section \<open>Properties of the injectable check\<close>

lemma finish_call_keeps_injector:
  "injector (snd (finish_call w result)) = injector w"
  by (cases result) (simp_all add: finish_call_def Let_def)

lemma call_with_getters_keeps_injector:
  "injector (fst (snd (call_with_getters w getters ctx components r regs))) = injector w"
proof (cases "resolve_getters getters ctx components (regs r)")
  case (Pair res st')
  show ?thesis
  proof (cases res)
    case (Inl e)
    with Pair show ?thesis by (simp add: call_with_getters_def)
  next
    case (Inr d)
    show ?thesis
    proof (cases "invoke (callback w) (star_dict d) []")
      case (Inl e)
      with Pair Inr show ?thesis by (simp add: call_with_getters_def)
    next
      case inv: (Inr result)
      obtain res' w' where f: "finish_call w result = (res', w')"
        by (cases "finish_call w result")
      have "injector w' = injector w"
        using finish_call_keeps_injector [of w result] f by simp
      with Pair Inr inv f show ?thesis by (simp add: call_with_getters_def)
    qed
  qed
qed

lemma call_keeps_injector:
  "injector (fst (snd (call tr w ctx components regs))) = injector w"
proof (cases "injector w")
  case None
  then show ?thesis by (simp add: call_def)
next
  case (Some r)
  show ?thesis
  proof (cases "cached_getters w")
    case Unset
    with Some show ?thesis by (simp add: call_def)
  next
    case (Assigned cached)
    show ?thesis
    proof (cases cached)
      case None
      show ?thesis
      proof (cases "resolve_callback_to_getters tr (callback w)")
        case (Inl e)
        with Some Assigned None show ?thesis by (simp add: call_def)
      next
        case (Inr getters)
        with Some Assigned None show ?thesis
          by (simp add: call_def call_with_getters_keeps_injector)
      qed
    next
      case getters: (Some gs)
      with Some Assigned show ?thesis
        by (simp add: call_def call_with_getters_keeps_injector)
    qed
  qed
qed

lemma step_keeps_injector:
  "injector (fst s) = Some r \<Longrightarrow> truth r \<Longrightarrow> injector (fst (step tr op s)) = Some r"
  by (cases op; cases s)
     (simp_all add: add_injector_def injector_truthy_def call_keeps_injector)

lemma steps_keep_injector:
  "injector (fst s) = Some r \<Longrightarrow> truth r \<Longrightarrow> injector (fst (fold (step tr) ops s)) = Some r"
  by (induction ops arbitrary: s) (simp_all add: step_keeps_injector)


text \<open>
  What holds of the wrapper for a registry that is true, as every instance of
  \<^verbatim>\<open>InjectorClient\<close> itself is: unbound, a call raises and changes nothing and
  \<^verbatim>\<open>add_injector\<close> stores the registry; bound, \<^verbatim>\<open>add_injector\<close> raises, and after any
  sequence of further operations the wrapper still holds the registry attached first.
\<close>

lemma true_registry_stays_attached:
  assumes "injector w = None" and "truth r"
  shows "call tr w ctx components regs = (Inl (RuntimeError InjectorNotSet), w, regs) \<and>
         add_injector r w = Inr (w\<lparr>injector := Some r\<rparr>) \<and>
         add_injector r' (w\<lparr>injector := Some r\<rparr>) = Inl (RuntimeError InjectorAlreadySet) \<and>
         (\<forall>ops. injector (fst (fold (step tr) ops (w\<lparr>injector := Some r\<rparr>, regs))) = Some r) \<and>
         (\<forall>ops. add_injector r' (fst (fold (step tr) ops (w\<lparr>injector := Some r\<rparr>, regs))) =
                Inl (RuntimeError InjectorAlreadySet))"
proof -
  have bound: "injector (fst (fold (step tr) ops (w\<lparr>injector := Some r\<rparr>, regs))) = Some r" for ops
    using assms(2) by (intro steps_keep_injector) simp_all
  show ?thesis using assms bound by (simp add: call_def add_injector_def injector_truthy_def)
qed

text \<open>
  C7, where the code departs from the claim. \<^verbatim>\<open>add_injector\<close> tests the truth value of
  \<^verbatim>\<open>self.injector\<close>, not whether it is \<^verbatim>\<open>None\<close>. A registry whose class derives from
  \<^verbatim>\<open>InjectorClient\<close> and defines \<^verbatim>\<open>__len__\<close> to return 0 is attached to a new wrapper; the
  wrapper is bound (a call gets past the test \<^verbatim>\<open>self.injector is None\<close>); and a second
  \<^verbatim>\<open>add_injector\<close>, with another registry, does not raise: it replaces the registry
  attached first.
\<close>

theorem falsy_registry_reattached:
  "add_injector empty_registry (InjectableCheck_init check) =
     Inr ((InjectableCheck_init check)\<lparr>injector := Some empty_registry\<rparr>) \<and>
   fst (call example_traits ((InjectableCheck_init check)\<lparr>injector := Some empty_registry\<rparr>)
          ctx_with_component [] (\<lambda>a. InjectorClient_init)) \<noteq> Inl (RuntimeError InjectorNotSet) \<and>
   add_injector second_registry ((InjectableCheck_init check)\<lparr>injector := Some empty_registry\<rparr>) =
     Inr ((InjectableCheck_init check)\<lparr>injector := Some second_registry\<rparr>) \<and>
   second_registry \<noteq> empty_registry \<and>
   injector (fst (fold (step example_traits) [AddInjector empty_registry, AddInjector second_registry]
     (InjectableCheck_init check, (\<lambda>a. InjectorClient_init)))) = Some second_registry"
  by (simp add: add_injector_def injector_truthy_def InjectableCheck_init_def call_def
      empty_registry_def second_registry_def)

text \<open>
  C6, where the code departs from the claim. \<^verbatim>\<open>__init__\<close> never assigns the slot
  \<^verbatim>\<open>_cached_getters\<close>, so for every callback, once a registry is attached, the first
  invocation raises \<^verbatim>\<open>AttributeError\<close> at the test \<^verbatim>\<open>self._cached_getters is None\<close>: nothing
  is computed, nothing is cached, and the wrapper is as before, so every later invocation
  raises the same.
\<close>

theorem unassigned_slot_raises:
  "\<exists>w. add_injector r (InjectableCheck_init cb) = Inr w \<and>
       call tr w ctx components regs = (Inl (AttributeError ''_cached_getters''), w, regs)"
  by (simp add: add_injector_def injector_truthy_def InjectableCheck_init_def call_def)

text \<open>
  C4, where the code departs from the claim. The wrapper of \<open>check\<close>, bound to a registry
  in which \<open>Config\<close> is registered with \<open>cfg1\<close>, raises \<^verbatim>\<open>AttributeError\<close> for the
  unassigned slot when invoked: no getter is resolved and the callback is not called.
  With the slot holding the mapping of \<open>cfg\<close> to the type getter of \<open>Config\<close>, the getter
  resolves to \<open>cfg1\<close>, but line 201 unpacks the dict with a single star: the callback is
  called with the string \<open>cfg\<close> as its one positional argument and no keyword argument,
  and raises on \<^verbatim>\<open>cfg.enabled\<close>; called with \<open>cfg1\<close> under the name \<open>cfg\<close> it returns
  \<^verbatim>\<open>True\<close>.
\<close>

theorem callback_receives_names:
  "call example_traits ((InjectableCheck_init check)\<lparr>injector := Some first_registry\<rparr>)
     ctx_with_component [] (\<lambda>r. add_type_dependency Config cfg1 InjectorClient_init) =
   (Inl (AttributeError ''_cached_getters''),
    (InjectableCheck_init check)\<lparr>injector := Some first_registry\<rparr>,
    (\<lambda>r. add_type_dependency Config cfg1 InjectorClient_init)) \<and>
   call example_traits
     \<lparr>callback = check,
      cached_getters = Assigned (Some [(''cfg'', TypeGetter Config False False)]),
      injector = Some first_registry, is_async = None\<rparr>
     ctx_with_component [] (\<lambda>r. add_type_dependency Config cfg1 InjectorClient_init) =
   (Inl (AttributeError ''enabled''),
    \<lparr>callback = check,
      cached_getters = Assigned (Some [(''cfg'', TypeGetter Config False False)]),
      injector = Some first_registry, is_async = None\<rparr>,
    (\<lambda>r. add_type_dependency Config cfg1 InjectorClient_init)) \<and>
   resolve_getters [(''cfg'', TypeGetter Config False False)] ctx_with_component []
     (add_type_dependency Config cfg1 InjectorClient_init) =
   (Inr [(''cfg'', cfg1)], add_type_dependency Config cfg1 InjectorClient_init) \<and>
   star_dict [(''cfg'', cfg1)] = [PStr ''cfg''] \<and>
   check_invoke [] [(''cfg'', cfg1)] = Inr (PBool True)"
  by (simp add: call_def call_with_getters_def add_type_dependency_def check_def star_dict_def
      enabled_def cfg1_def cfg2_def fun_upd_idem InjectableCheck_init_def first_registry_def)

end
